theory Spec2Isabelle
  imports Complex_Main "HOL-Library.Multiset"
begin

section \<open>The marketplace backend of app.py\<close>

text \<open>
  The program is a set of HTTP handlers over a relational store. Each handler is embedded
  as a function from the request (the authenticated user id, the JSON body, the clock) and
  the database to the response and the database it leaves behind.

  Conventions of the embedding.
  \<^item> A table is the list of its rows, in insertion order. \<open>SELECT ... WHERE\<close> is
    \<open>filter\<close>, \<open>fetchone\<close> takes the first row, \<open>UPDATE ... WHERE\<close> maps over every
    matching row, \<open>DELETE ... WHERE\<close> filters, an inner \<open>JOIN\<close> is a nested comprehension.
    No key constraint is assumed: the schema is not part of the repository.
  \<^item> An \<open>AUTO_INCREMENT\<close> id column is a counter kept beside the tables;
    \<open>cur.lastrowid\<close> is the value the counter had.
  \<^item> Ids and quantities are Python integers (\<open>int\<close>); a price is the real number a
    Python float stands for (rounding is not modelled); a timestamp is an integer number
    of seconds.
  \<^item> A JSON body is a record of optional fields, \<open>None\<close> for a key that is absent, each
    with the type the handler expects of it.
  \<^item> A response is its HTTP status with either the text of its \<open>error\<close> field or its
    payload.
\<close>

subsection \<open>Responses\<close>

datatype 'a response = Err nat string | Reply nat 'a

fun is_error :: "'a response \<Rightarrow> bool" where
  "is_error (Err _ _) = True"
| "is_error (Reply _ _) = False"

subsection \<open>Python string helpers\<close>

text \<open>\<open>str.strip()\<close> and \<open>str.lower()\<close> on ASCII text.\<close>

definition is_space :: "char \<Rightarrow> bool" where
  "is_space c = (let n = (of_char c :: nat) in (9 \<le> n \<and> n \<le> 13) \<or> (28 \<le> n \<and> n \<le> 32))"

definition strip :: "string \<Rightarrow> string" where
  "strip s = rev (dropWhile is_space (rev (dropWhile is_space s)))"

definition lower_char :: "char \<Rightarrow> char" where
  "lower_char c = (let n = (of_char c :: nat) in if 65 \<le> n \<and> n \<le> 90 then char_of (n + 32) else c)"

definition lower :: "string \<Rightarrow> string" where
  "lower s = map lower_char s"

text \<open>\<open>data.get(key, '')\<close> and \<open>data.get(key) or ''\<close> on a string field.\<close>

definition get_str :: "string option \<Rightarrow> string" where
  "get_str v = (case v of None \<Rightarrow> [] | Some s \<Rightarrow> s)"

text \<open>\<open>s.startswith(pre)\<close> and \<open>s.split(' ', 1)[1]\<close> (for a string that holds a space).\<close>

definition startswith :: "string \<Rightarrow> string \<Rightarrow> bool" where
  "startswith s pre = (take (length pre) s = pre)"

definition after_first_space :: "string \<Rightarrow> string" where
  "after_first_space s = tl (dropWhile (\<lambda>c. c \<noteq> CHR '' '') s)"

subsection \<open>The tables\<close>

record user_row =
  u_id :: int
  u_username :: string
  u_email :: string
  u_password :: string

record product_row =
  p_id :: int
  p_user_id :: int
  p_title :: string
  p_description :: string
  p_price :: real
  p_category :: string
  p_image :: string

record cart_row =
  c_id :: int
  c_user_id :: int
  c_product_id :: int
  c_quantity :: int

record order_row =
  o_id :: int
  o_user_id :: int
  o_created_at :: int

record order_item_row =
  oi_order_id :: int
  oi_product_id :: int
  oi_quantity :: int
  oi_price :: real

record db =
  users :: "user_row list"
  products :: "product_row list"
  cart :: "cart_row list"
  orders :: "order_row list"
  order_items :: "order_item_row list"
  next_user_id :: int
  next_product_id :: int
  next_cart_id :: int
  next_order_id :: int

definition fetchone :: "'a list \<Rightarrow> 'a option" where
  "fetchone rows = (case rows of [] \<Rightarrow> None | r # _ \<Rightarrow> Some r)"

subsection \<open>Configuration and the external libraries\<close>

record config =
  secret_key :: string
  jwt_expire_hours :: int

text \<open>
  PyJWT and werkzeug.security are outside the repository: the handlers take them as a
  record of functions. A decoded payload carries the \<open>user_id\<close> claim as an integer when
  \<open>int(payload.get('user_id'))\<close> succeeds on it (\<open>None\<close> otherwise) and the expiry.
  \<open>jwt_decode\<close> also takes the clock.
\<close>

record payload =
  pl_user_id :: "int option"
  pl_exp :: int

datatype decoded = Decoded payload | ExpiredSignatureError | InvalidTokenError

record lib =
  jwt_encode :: "payload \<Rightarrow> string \<Rightarrow> string"
  jwt_decode :: "string \<Rightarrow> string \<Rightarrow> int \<Rightarrow> decoded"
  generate_password_hash :: "string \<Rightarrow> string"
  check_password_hash :: "string \<Rightarrow> string \<Rightarrow> bool"

subsection \<open>Tokens and the authorization guard\<close>

definition create_token :: "config \<Rightarrow> lib \<Rightarrow> int \<Rightarrow> int \<Rightarrow> string" where
  "create_token cfg L now user_id =
     (let exp = now + jwt_expire_hours cfg * 3600
      in jwt_encode L \<lparr>pl_user_id = Some user_id, pl_exp = exp\<rparr> (secret_key cfg))"

text \<open>The guard up to the call of the wrapped handler: the failure, or the user id.\<close>

definition authenticate :: "config \<Rightarrow> lib \<Rightarrow> int \<Rightarrow> string option \<Rightarrow> (nat \<times> string) + int" where
  "authenticate cfg L now auth =
     (case auth of
        None \<Rightarrow> Inl (401, ''Authorization header missing'')
      | Some a \<Rightarrow>
          if a = [] \<or> \<not> startswith a ''Bearer '' then Inl (401, ''Authorization header missing'')
          else
            (let token = after_first_space a
             in case jwt_decode L token (secret_key cfg) now of
                  ExpiredSignatureError \<Rightarrow> Inl (401, ''Token expired'')
                | InvalidTokenError \<Rightarrow> Inl (401, ''Invalid token'')
                | Decoded p \<Rightarrow>
                    (case pl_user_id p of
                       None \<Rightarrow> Inl (401, ''Invalid token'')
                     | Some user_id \<Rightarrow> Inr user_id)))"

definition jwt_required ::
  "config \<Rightarrow> lib \<Rightarrow> int \<Rightarrow> string option \<Rightarrow> (int \<Rightarrow> db \<Rightarrow> db \<times> 'a response) \<Rightarrow> db \<Rightarrow> db \<times> 'a response" where
  "jwt_required cfg L now auth f d =
     (case authenticate cfg L now auth of
        Inl (status, msg) \<Rightarrow> (d, Err status msg)
      | Inr user_id \<Rightarrow> f user_id d)"

subsection \<open>Signup and login\<close>

record signup_body =
  sb_username :: "string option"
  sb_email :: "string option"
  sb_password :: "string option"

record login_body =
  lb_email :: "string option"
  lb_password :: "string option"

text \<open>The payload of a signup or login reply: the token, then the user's id, name and email.\<close>

type_synonym session = "string \<times> int \<times> string \<times> string"

definition signup :: "config \<Rightarrow> lib \<Rightarrow> int \<Rightarrow> signup_body \<Rightarrow> db \<Rightarrow> db \<times> session response" where
  "signup cfg L now data d =
     (let username = strip (get_str (sb_username data));
          email = lower (strip (get_str (sb_email data)));
          password = get_str (sb_password data)
      in if username = [] \<or> email = [] \<or> password = []
         then (d, Err 400 ''username, email and password required'')
         else
           (case fetchone (filter (\<lambda>u. u_email u = email) (users d)) of
              Some _ \<Rightarrow> (d, Err 400 ''email already registered'')
            | None \<Rightarrow>
                (let password_hash = generate_password_hash L password;
                     user_id = next_user_id d;
                     d' = d\<lparr>users := users d @
                            [\<lparr>u_id = user_id, u_username = username, u_email = email,
                              u_password = password_hash\<rparr>],
                            next_user_id := user_id + 1\<rparr>;
                     token = create_token cfg L now user_id
                 in (d', Reply 201 (token, user_id, username, email)))))"

definition login :: "config \<Rightarrow> lib \<Rightarrow> int \<Rightarrow> login_body \<Rightarrow> db \<Rightarrow> session response" where
  "login cfg L now data d =
     (let email = lower (strip (get_str (lb_email data)));
          password = get_str (lb_password data)
      in if email = [] \<or> password = []
         then Err 400 ''email and password required''
         else
           (case fetchone (filter (\<lambda>u. u_email u = email) (users d)) of
              None \<Rightarrow> Err 401 ''invalid credentials''
            | Some user \<Rightarrow>
                if \<not> check_password_hash L (u_password user) password
                then Err 401 ''invalid credentials''
                else Reply 200 (create_token cfg L now (u_id user),
                                u_id user, u_username user, u_email user)))"

subsection \<open>Products\<close>

text \<open>
  The \<open>price\<close> of a body is any JSON value; the handlers pass it to \<open>float()\<close>. The
  model keeps what \<open>float()\<close> makes of it: a number, or a raised exception.
\<close>

datatype price_in = Numeric real | NonNumeric

definition py_float :: "price_in \<Rightarrow> real option" where
  "py_float v = (case v of Numeric r \<Rightarrow> Some r | NonNumeric \<Rightarrow> None)"

record create_body =
  cb_title :: "string option"
  cb_description :: "string option"
  cb_price :: "price_in option"
  cb_category :: "string option"
  cb_image :: "string option"

definition create_product :: "int \<Rightarrow> create_body \<Rightarrow> db \<Rightarrow> db \<times> (string \<times> int) response" where
  "create_product current_user data d =
     (let title = strip (get_str (cb_title data));
          description = strip (get_str (cb_description data));
          price = cb_price data;
          category = strip (get_str (cb_category data));
          image = strip (get_str (cb_image data))
      in case price of
           None \<Rightarrow> (d, Err 400 ''title and price required'')
         | Some pv \<Rightarrow>
             if title = [] then (d, Err 400 ''title and price required'')
             else
               (case py_float pv of
                  None \<Rightarrow> (d, Err 500 ''server error'')
                | Some fp \<Rightarrow>
                    (let new_id = next_product_id d
                     in (d\<lparr>products := products d @
                            [\<lparr>p_id = new_id, p_user_id = current_user, p_title = title,
                              p_description = description, p_price = fp,
                              p_category = category, p_image = image\<rparr>],
                           next_product_id := new_id + 1\<rparr>,
                         Reply 201 (''product created'', new_id)))))"

record update_body =
  ub_title :: "string option"
  ub_description :: "string option"
  ub_price :: "price_in option"
  ub_category :: "string option"
  ub_image :: "string option"

text \<open>One \<open>column=%s\<close> of the \<open>SET\<close> list with its parameter.\<close>

datatype assignment =
  SetTitle string | SetDescription string | SetPrice real | SetCategory string | SetImage string

fun assign :: "product_row \<Rightarrow> assignment \<Rightarrow> product_row" where
  "assign p (SetTitle v) = p\<lparr>p_title := v\<rparr>"
| "assign p (SetDescription v) = p\<lparr>p_description := v\<rparr>"
| "assign p (SetPrice v) = p\<lparr>p_price := v\<rparr>"
| "assign p (SetCategory v) = p\<lparr>p_category := v\<rparr>"
| "assign p (SetImage v) = p\<lparr>p_image := v\<rparr>"

text \<open>The \<open>fields\<close>/\<open>params\<close> lists of \<open>update_product\<close>; \<open>None\<close> when \<open>float(price)\<close> raises.\<close>

definition build_fields :: "update_body \<Rightarrow> assignment list option" where
  "build_fields data =
     (let f1 = (case ub_title data of None \<Rightarrow> [] | Some v \<Rightarrow> [SetTitle v]);
          f2 = f1 @ (case ub_description data of None \<Rightarrow> [] | Some v \<Rightarrow> [SetDescription v]);
          rest = (case ub_category data of None \<Rightarrow> [] | Some v \<Rightarrow> [SetCategory v]) @
                 (case ub_image data of None \<Rightarrow> [] | Some v \<Rightarrow> [SetImage v])
      in case ub_price data of
           None \<Rightarrow> Some (f2 @ rest)
         | Some pv \<Rightarrow>
             (case py_float pv of
                None \<Rightarrow> None
              | Some fp \<Rightarrow> Some (f2 @ [SetPrice fp] @ rest)))"

definition update_product :: "int \<Rightarrow> int \<Rightarrow> update_body \<Rightarrow> db \<Rightarrow> db \<times> string response" where
  "update_product current_user pid data d =
     (case fetchone (map p_user_id (filter (\<lambda>p. p_id p = pid) (products d))) of
        None \<Rightarrow> (d, Err 404 ''not found'')
      | Some owner \<Rightarrow>
          if owner \<noteq> current_user then (d, Err 403 ''forbidden'')
          else
            (case build_fields data of
               None \<Rightarrow> (d, Err 500 ''server error'')
             | Some field_list \<Rightarrow>
                 if field_list = [] then (d, Err 400 ''nothing to update'')
                 else
                   (d\<lparr>products :=
                        map (\<lambda>p. if p_id p = pid then foldl assign p field_list else p) (products d)\<rparr>,
                    Reply 200 ''updated'')))"

definition delete_product :: "int \<Rightarrow> int \<Rightarrow> db \<Rightarrow> db \<times> string response" where
  "delete_product current_user pid d =
     (case fetchone (map p_user_id (filter (\<lambda>p. p_id p = pid) (products d))) of
        None \<Rightarrow> (d, Err 404 ''not found'')
      | Some owner \<Rightarrow>
          if owner \<noteq> current_user then (d, Err 403 ''forbidden'')
          else (d\<lparr>products := filter (\<lambda>p. p_id p \<noteq> pid) (products d)\<rparr>, Reply 200 ''deleted''))"

subsection \<open>Cart\<close>

record cart_body =
  ab_product_id :: "int option"
  ab_quantity :: "int option"

definition add_to_cart :: "int \<Rightarrow> cart_body \<Rightarrow> db \<Rightarrow> db \<times> string response" where
  "add_to_cart current_user data d =
     (let quantity = (case ab_quantity data of None \<Rightarrow> 1 | Some q \<Rightarrow> q)
      in case ab_product_id data of
           None \<Rightarrow> (d, Err 400 ''product_id required'')
         | Some product_id \<Rightarrow>
             if product_id = 0 then (d, Err 400 ''product_id required'')
             else
               (case fetchone (filter (\<lambda>c. c_user_id c = current_user \<and> c_product_id c = product_id)
                                 (cart d)) of
                  Some existing \<Rightarrow>
                    (d\<lparr>cart := map (\<lambda>c. if c_id c = c_id existing
                                        then c\<lparr>c_quantity := c_quantity c + quantity\<rparr> else c)
                                  (cart d)\<rparr>,
                     Reply 200 ''added to cart'')
                | None \<Rightarrow>
                    (d\<lparr>cart := cart d @
                         [\<lparr>c_id = next_cart_id d, c_user_id = current_user,
                           c_product_id = product_id, c_quantity = quantity\<rparr>],
                       next_cart_id := next_cart_id d + 1\<rparr>,
                     Reply 200 ''added to cart'')))"

record cart_view_row =
  cv_cart_id :: int
  cv_product_id :: int
  cv_title :: string
  cv_price :: real
  cv_image :: string
  cv_quantity :: int

text \<open>\<open>FROM cart c JOIN products p ON c.product_id = p.id WHERE c.user_id = ...\<close>\<close>

definition cart_join :: "db \<Rightarrow> int \<Rightarrow> (cart_row \<times> product_row) list" where
  "cart_join d current_user =
     concat (map (\<lambda>c. map (\<lambda>p. (c, p)) (filter (\<lambda>p. c_product_id c = p_id p) (products d)))
                 (filter (\<lambda>c. c_user_id c = current_user) (cart d)))"

definition view_cart :: "int \<Rightarrow> db \<Rightarrow> cart_view_row list response" where
  "view_cart current_user d =
     Reply 200 (map (\<lambda>(c, p). \<lparr>cv_cart_id = c_id c, cv_product_id = p_id p, cv_title = p_title p,
                               cv_price = p_price p, cv_image = p_image p,
                               cv_quantity = c_quantity c\<rparr>)
                    (cart_join d current_user))"

subsection \<open>The connection\<close>

text \<open>
  \<open>mysql.connector\<close> opens a connection with autocommit off: the statements of a request
  work on a pending copy of the tables, \<open>conn.commit()\<close> stores it, and
  \<open>conn.close()\<close> without a commit discards it (a transactional storage engine is
  assumed; the id counters are not rolled back). \<open>calls\<close> counts the statements issued so
  far. The argument \<open>fault\<close> of \<open>execute\<close> and \<open>commit\<close> names the statement of the
  request at which the store raises, if any; a result \<open>Inl c\<close> is the exception, with the
  connection as it is then.
\<close>

record conn =
  stored :: db
  pending :: db
  calls :: nat

definition connect :: "db \<Rightarrow> conn" where
  "connect d = \<lparr>stored = d, pending = d, calls = 0\<rparr>"

definition execute :: "nat option \<Rightarrow> (db \<Rightarrow> db) \<Rightarrow> conn \<Rightarrow> conn + conn" where
  "execute fault stmt c =
     (if fault = Some (calls c) then Inl c
      else Inr (c\<lparr>pending := stmt (pending c), calls := Suc (calls c)\<rparr>))"

definition commit :: "nat option \<Rightarrow> conn \<Rightarrow> conn + conn" where
  "commit fault c =
     (if fault = Some (calls c) then Inl c
      else Inr (c\<lparr>stored := pending c, calls := Suc (calls c)\<rparr>))"

definition close :: "conn \<Rightarrow> db" where
  "close c = (stored c)\<lparr>next_user_id := next_user_id (pending c),
                         next_product_id := next_product_id (pending c),
                         next_cart_id := next_cart_id (pending c),
                         next_order_id := next_order_id (pending c)\<rparr>"

subsection \<open>Checkout and purchases\<close>

text \<open>The rows \<open>c.product_id, c.quantity, p.price\<close> that \<open>checkout\<close> selects.\<close>

definition cart_items :: "db \<Rightarrow> int \<Rightarrow> (int \<times> int \<times> real) list" where
  "cart_items d current_user =
     map (\<lambda>(c, p). (c_product_id c, c_quantity c, p_price p)) (cart_join d current_user)"

definition insert_order :: "int \<Rightarrow> int \<Rightarrow> db \<Rightarrow> db" where
  "insert_order current_user now d =
     d\<lparr>orders := orders d @ [\<lparr>o_id = next_order_id d, o_user_id = current_user, o_created_at = now\<rparr>],
       next_order_id := next_order_id d + 1\<rparr>"

definition order_item_of :: "int \<Rightarrow> int \<times> int \<times> real \<Rightarrow> order_item_row" where
  "order_item_of order_id it =
     (case it of (product_id, quantity, price) \<Rightarrow>
        \<lparr>oi_order_id = order_id, oi_product_id = product_id, oi_quantity = quantity,
         oi_price = price\<rparr>)"

definition insert_order_item :: "int \<Rightarrow> int \<times> int \<times> real \<Rightarrow> db \<Rightarrow> db" where
  "insert_order_item order_id it d = d\<lparr>order_items := order_items d @ [order_item_of order_id it]\<rparr>"

definition clear_cart :: "int \<Rightarrow> db \<Rightarrow> db" where
  "clear_cart current_user d = d\<lparr>cart := filter (\<lambda>c. c_user_id c \<noteq> current_user) (cart d)\<rparr>"

text \<open>The loop \<open>for it in items\<close>: it stops at the first statement that raises.\<close>

fun insert_order_items :: "nat option \<Rightarrow> int \<Rightarrow> (int \<times> int \<times> real) list \<Rightarrow> conn \<Rightarrow> conn + conn" where
  "insert_order_items fault order_id [] c = Inr c"
| "insert_order_items fault order_id (it # items) c =
     (case execute fault (insert_order_item order_id it) c of
        Inl c' \<Rightarrow> Inl c'
      | Inr c' \<Rightarrow> insert_order_items fault order_id items c')"

definition checkout :: "nat option \<Rightarrow> int \<Rightarrow> int \<Rightarrow> db \<Rightarrow> db \<times> (string \<times> int) response" where
  "checkout fault now current_user d =
     (case execute fault id (connect d) of
        Inl c \<Rightarrow> (close c, Err 500 ''server error'')
      | Inr c1 \<Rightarrow>
          (let items = cart_items (pending c1) current_user
           in if items = [] then (close c1, Err 400 ''cart empty'')
              else
                (case execute fault (insert_order current_user now) c1 of
                   Inl c \<Rightarrow> (close c, Err 500 ''server error'')
                 | Inr c2 \<Rightarrow>
                     (let order_id = next_order_id (pending c1)
                      in case insert_order_items fault order_id items c2 of
                           Inl c \<Rightarrow> (close c, Err 500 ''server error'')
                         | Inr c3 \<Rightarrow>
                             (case execute fault (clear_cart current_user) c3 of
                                Inl c \<Rightarrow> (close c, Err 500 ''server error'')
                              | Inr c4 \<Rightarrow>
                                  (case commit fault c4 of
                                     Inl c \<Rightarrow> (close c, Err 500 ''server error'')
                                   | Inr c5 \<Rightarrow>
                                       (close c5, Reply 200 (''checkout complete'', order_id))))))))"

record purchase_row =
  pr_order_id :: int
  pr_created_at :: int
  pr_product_id :: int
  pr_title :: string
  pr_image :: string
  pr_quantity :: int
  pr_price :: real

text \<open>
  \<open>FROM orders o JOIN order_items oi ON oi.order_id = o.id JOIN products p ON
  p.id = oi.product_id WHERE o.user_id = ...\<close>
\<close>

definition purchases_join :: "db \<Rightarrow> int \<Rightarrow> (order_row \<times> order_item_row \<times> product_row) list" where
  "purchases_join d current_user =
     concat (map (\<lambda>ord.
       concat (map (\<lambda>oi. map (\<lambda>p. (ord, oi, p)) (filter (\<lambda>p. p_id p = oi_product_id oi) (products d)))
                   (filter (\<lambda>oi. oi_order_id oi = o_id ord) (order_items d))))
       (filter (\<lambda>ord. o_user_id ord = current_user) (orders d)))"

definition purchase_of :: "order_row \<times> order_item_row \<times> product_row \<Rightarrow> purchase_row" where
  "purchase_of r =
     (case r of (ord, oi, p) \<Rightarrow>
        \<lparr>pr_order_id = o_id ord, pr_created_at = o_created_at ord, pr_product_id = oi_product_id oi,
         pr_title = p_title p, pr_image = p_image p, pr_quantity = oi_quantity oi,
         pr_price = oi_price oi\<rparr>)"

text \<open>\<open>ORDER BY o.created_at DESC\<close>: a sort on the negated timestamp (stable on ties).\<close>

definition purchases :: "int \<Rightarrow> db \<Rightarrow> purchase_row list response" where
  "purchases current_user d =
     Reply 200 (sort_key (\<lambda>r. - pr_created_at r) (map purchase_of (purchases_join d current_user)))"

text \<open>A cart row is orphaned when no product carries its product id.\<close>

definition orphaned :: "db \<Rightarrow> cart_row \<Rightarrow> bool" where
  "orphaned d c = (filter (\<lambda>p. c_product_id c = p_id p) (products d) = [])"

text \<open>The tables of a database, without its id counters.\<close>

definition tables ::
  "db \<Rightarrow> user_row list \<times> product_row list \<times> cart_row list \<times> order_row list \<times> order_item_row list" where
  "tables d = (users d, products d, cart d, orders d, order_items d)"

text \<open>The cart rows of one user for one product: what \<open>add_to_cart\<close> selects.\<close>

definition entries_for :: "db \<Rightarrow> int \<Rightarrow> int \<Rightarrow> cart_row list" where
  "entries_for d user_id product_id =
     filter (\<lambda>c. c_user_id c = user_id \<and> c_product_id c = product_id) (cart d)"

subsection \<open>The contract of the token library\<close>

text \<open>
  What the handlers rely on from PyJWT, at one payload, key and instant: decoding the
  encoding of the payload with the same key gives the payload back, unless its expiry has
  passed.
\<close>

definition jwt_sound :: "lib \<Rightarrow> string \<Rightarrow> payload \<Rightarrow> int \<Rightarrow> bool" where
  "jwt_sound L key p t =
     (jwt_decode L (jwt_encode L p key) key t =
        (if pl_exp p \<le> t then ExpiredSignatureError else Decoded p))"

subsection \<open>Sample data\<close>

text \<open>
  Concrete configurations, libraries and databases on which the handlers are run below.
  \<open>demo_lib\<close> is a stand-in for the two libraries that knows a single token, issued to
  user 1 and expiring at second 86400.
\<close>

definition demo_lib :: lib where
  "demo_lib =
     \<lparr>jwt_encode = (\<lambda>p k. ''token''),
      jwt_decode = (\<lambda>t k now. if t = ''token'' \<and> k = ''secret''
                      then (if 86400 \<le> now then ExpiredSignatureError
                            else Decoded \<lparr>pl_user_id = Some 1, pl_exp = 86400\<rparr>)
                      else InvalidTokenError),
      generate_password_hash = (\<lambda>pw. ''h:'' @ pw),
      check_password_hash = (\<lambda>h pw. h = ''h:'' @ pw)\<rparr>"

definition demo_config :: config where
  "demo_config = \<lparr>secret_key = ''secret'', jwt_expire_hours = 24\<rparr>"

definition empty_db :: db where
  "empty_db = \<lparr>users = [], products = [], cart = [], orders = [], order_items = [],
     next_user_id = 1, next_product_id = 1, next_cart_id = 1, next_order_id = 1\<rparr>"

definition ann :: user_row where
  "ann = \<lparr>u_id = 1, u_username = ''ann'', u_email = ''a@b.c'', u_password = ''h:pw''\<rparr>"

definition ann_db :: db where
  "ann_db = empty_db\<lparr>users := [ann], next_user_id := 2\<rparr>"

definition lamp :: product_row where
  "lamp = \<lparr>p_id = 1, p_user_id = 1, p_title = ''lamp'', p_description = ''old'', p_price = 10,
           p_category = ''Home'', p_image = ''l.png''\<rparr>"

definition shop_db :: db where
  "shop_db = empty_db\<lparr>products := [lamp], next_product_id := 2\<rparr>"

definition no_fields :: update_body where
  "no_fields = \<lparr>ub_title = None, ub_description = None, ub_price = None, ub_category = None,
                ub_image = None\<rparr>"

definition price_only :: update_body where
  "price_only = no_fields\<lparr>ub_price := Some (Numeric 12)\<rparr>"

definition lamp_body :: create_body where
  "lamp_body = \<lparr>cb_title = Some ''lamp'', cb_description = Some ''old'',
                 cb_price = Some (Numeric 10), cb_category = Some ''Home'',
                 cb_image = Some ''l.png''\<rparr>"

definition lamp_entry :: cart_row where
  "lamp_entry = \<lparr>c_id = 1, c_user_id = 2, c_product_id = 1, c_quantity = 5\<rparr>"

definition cart_db :: db where
  "cart_db = shop_db\<lparr>cart := [lamp_entry], next_cart_id := 2\<rparr>"

definition ghost_entry :: cart_row where
  "ghost_entry = \<lparr>c_id = 2, c_user_id = 2, c_product_id = 7, c_quantity = 1\<rparr>"

definition orphan_db :: db where
  "orphan_db = shop_db\<lparr>cart := [lamp_entry, ghost_entry], next_cart_id := 3\<rparr>"

definition ghost_only_db :: db where
  "ghost_only_db = shop_db\<lparr>cart := [ghost_entry], next_cart_id := 3\<rparr>"

definition bought_db :: db where
  "bought_db = shop_db\<lparr>orders := [\<lparr>o_id = 1, o_user_id = 2, o_created_at = 100\<rparr>],
       order_items := [\<lparr>oi_order_id = 1, oi_product_id = 1, oi_quantity = 5, oi_price = 10\<rparr>],
       next_cart_id := 2, next_order_id := 2\<rparr>"

definition orphan_bought_db :: db where
  "orphan_bought_db = bought_db\<lparr>next_cart_id := 3\<rparr>"

section \<open>Properties\<close>

lemmas sample_defs = empty_db_def shop_db_def lamp_def no_fields_def price_only_def lamp_body_def
  lamp_entry_def cart_db_def ghost_entry_def orphan_db_def ghost_only_db_def bought_db_def
  orphan_bought_db_def

subsection \<open>Tokens, signup and login\<close>

lemma authenticate_fresh:
  assumes "jwt_sound L (secret_key cfg)
             \<lparr>pl_user_id = Some uid, pl_exp = now + jwt_expire_hours cfg * 3600\<rparr> t"
    and "t < now + jwt_expire_hours cfg * 3600"
  shows "authenticate cfg L t (Some (''Bearer '' @ create_token cfg L now uid)) = Inr uid"
  using assms
  by (simp add: authenticate_def create_token_def startswith_def after_first_space_def
      jwt_sound_def)

lemma login_after_signup:
  assumes su: "signup cfg L now_s data d = (d_s, Reply 201 (tok_s, uid, name, mail))"
    and pw: "check_password_hash L (generate_password_hash L (get_str (sb_password data)))
               (get_str (sb_password data))"
  shows "login cfg L now \<lparr>lb_email = sb_email data, lb_password = sb_password data\<rparr> d_s =
           Reply 200 (create_token cfg L now uid, uid, name, mail)"
proof -
  let ?email = "lower (strip (get_str (sb_email data)))"
  let ?pw = "get_str (sb_password data)"
  from su have ne: "?email \<noteq> []" "?pw \<noteq> []"
    and fresh: "filter (\<lambda>u. u_email u = ?email) (users d) = []"
    by (auto simp: signup_def Let_def fetchone_def split: if_splits option.splits list.splits)
  from su ne fresh have d_s: "users d_s = users d @
      [\<lparr>u_id = uid, u_username = name, u_email = mail, u_password = generate_password_hash L ?pw\<rparr>]"
    and mail: "mail = ?email"
    by (auto simp: signup_def Let_def fetchone_def split: if_splits option.splits list.splits)
  show ?thesis
    using ne fresh d_s mail pw by (simp add: login_def Let_def fetchone_def)
qed

text \<open>
  Claim C3. A token issued for a user id and presented in a \<open>Bearer\<close> header before its
  expiry (issue time plus the configured hours), under the same signing key, authenticates
  as exactly that user id, and the guard calls the wrapped handler with it. And when signup has answered with user id \<open>uid\<close>, a login with
  the same email and password on the resulting database answers with that id and a token
  issued for it, so the token verifies to the id signup returned. The two libraries are
  assumed to keep their contracts: the token round trip at this payload, and the hash
  check accepting the password it was generated from.
\<close>

theorem token_roundtrip_signup_login:
  assumes "jwt_sound L (secret_key cfg)
             \<lparr>pl_user_id = Some uid, pl_exp = now + jwt_expire_hours cfg * 3600\<rparr> t"
    and "t < now + jwt_expire_hours cfg * 3600"
  shows "authenticate cfg L t (Some (''Bearer '' @ create_token cfg L now uid)) = Inr uid \<and>
         jwt_required cfg L t (Some (''Bearer '' @ create_token cfg L now uid)) f d_g = f uid d_g \<and>
         (signup cfg L now_s data d = (d_s, Reply 201 (tok_s, uid, name, mail)) \<and>
          check_password_hash L (generate_password_hash L (get_str (sb_password data)))
            (get_str (sb_password data)) \<longrightarrow>
          login cfg L now \<lparr>lb_email = sb_email data, lb_password = sb_password data\<rparr> d_s =
            Reply 200 (create_token cfg L now uid, uid, name, mail))"
  using authenticate_fresh [OF assms] login_after_signup
  by (simp add: jwt_required_def) blast

theorem token_roundtrip_signup_login_witness:
  "jwt_sound demo_lib (secret_key demo_config)
     \<lparr>pl_user_id = Some 1, pl_exp = 0 + jwt_expire_hours demo_config * 3600\<rparr> 100 \<and>
   (100::int) < 0 + jwt_expire_hours demo_config * 3600 \<and>
   signup demo_config demo_lib 0
     \<lparr>sb_username = Some ''ann'', sb_email = Some ''a@b.c'', sb_password = Some ''pw''\<rparr> empty_db =
     (ann_db, Reply 201 (''token'', 1, ''ann'', ''a@b.c'')) \<and>
   authenticate demo_config demo_lib 100
     (Some (''Bearer '' @ create_token demo_config demo_lib 0 1)) = Inr 1 \<and>
   jwt_required demo_config demo_lib 100
     (Some (''Bearer '' @ create_token demo_config demo_lib 0 1))
     (\<lambda>user_id. delete_product user_id 1) shop_db = delete_product 1 1 shop_db \<and>
   login demo_config demo_lib 0 \<lparr>lb_email = Some ''a@b.c'', lb_password = Some ''pw''\<rparr> ann_db =
     Reply 200 (create_token demo_config demo_lib 0 1, 1, ''ann'', ''a@b.c'')"
proof -
  let ?data = "\<lparr>sb_username = Some ''ann'', sb_email = Some ''a@b.c'', sb_password = Some ''pw''\<rparr>"
  have sound: "jwt_sound demo_lib (secret_key demo_config)
     \<lparr>pl_user_id = Some 1, pl_exp = 0 + jwt_expire_hours demo_config * 3600\<rparr> 100"
    by (simp add: jwt_sound_def demo_lib_def demo_config_def)
  have fresh: "(100::int) < 0 + jwt_expire_hours demo_config * 3600"
    by (simp add: demo_config_def)
  have su: "signup demo_config demo_lib 0 ?data empty_db =
     (ann_db, Reply 201 (''token'', 1, ''ann'', ''a@b.c''))"
    by (simp add: signup_def Let_def get_str_def strip_def lower_def is_space_def lower_char_def
        fetchone_def empty_db_def ann_db_def ann_def create_token_def demo_lib_def)
  have pw: "check_password_hash demo_lib
      (generate_password_hash demo_lib (get_str (sb_password ?data)))
      (get_str (sb_password ?data))"
    by (simp add: demo_lib_def)
  note t = token_roundtrip_signup_login [OF sound fresh, where now_s = 0 and d = empty_db
      and data = ?data and d_s = ann_db and tok_s = "''token''" and name = "''ann''"
      and mail = "''a@b.c''" and f = "\<lambda>user_id. delete_product user_id 1" and d_g = shop_db]
  from t have a: "authenticate demo_config demo_lib 100
      (Some (''Bearer '' @ create_token demo_config demo_lib 0 1)) = Inr 1"
    by blast
  from t have g: "jwt_required demo_config demo_lib 100
      (Some (''Bearer '' @ create_token demo_config demo_lib 0 1))
      (\<lambda>user_id. delete_product user_id 1) shop_db = delete_product 1 1 shop_db"
    by blast
  from t su pw have "login demo_config demo_lib 0
      \<lparr>lb_email = sb_email ?data, lb_password = sb_password ?data\<rparr> ann_db =
      Reply 200 (create_token demo_config demo_lib 0 1, 1, ''ann'', ''a@b.c'')"
    by blast
  then have l: "login demo_config demo_lib 0
      \<lparr>lb_email = Some ''a@b.c'', lb_password = Some ''pw''\<rparr> ann_db =
      Reply 200 (create_token demo_config demo_lib 0 1, 1, ''ann'', ''a@b.c'')"
    by simp
  show ?thesis
    by (intro conjI sound fresh su a g l)
qed

text \<open>
  Claim C6. A login whose email matches no user and a login whose email matches a user
  whose stored hash rejects the password get the same response, whatever the request; when
  the normalised email and the password are both non-empty that response is 401 with the
  error \<open>invalid credentials\<close>.
\<close>

theorem login_same_failure:
  assumes "fetchone (filter (\<lambda>u. u_email u = lower (strip (get_str (lb_email data)))) (users d1)) = None"
    and "fetchone (filter (\<lambda>u. u_email u = lower (strip (get_str (lb_email data)))) (users d2)) = Some user"
    and "\<not> check_password_hash L (u_password user) (get_str (lb_password data))"
  shows "login cfg L now data d1 = login cfg L now data d2 \<and>
         (lower (strip (get_str (lb_email data))) \<noteq> [] \<and> get_str (lb_password data) \<noteq> [] \<longrightarrow>
            login cfg L now data d1 = Err 401 ''invalid credentials'')"
  using assms by (simp add: login_def Let_def)

theorem login_same_failure_witness:
  "fetchone (filter (\<lambda>u. u_email u = lower (strip (get_str (lb_email
       \<lparr>lb_email = Some ''a@b.c'', lb_password = Some ''guess''\<rparr>)))) (users empty_db)) = None \<and>
   fetchone (filter (\<lambda>u. u_email u = lower (strip (get_str (lb_email
       \<lparr>lb_email = Some ''a@b.c'', lb_password = Some ''guess''\<rparr>)))) (users ann_db)) = Some ann \<and>
   \<not> check_password_hash demo_lib (u_password ann)
       (get_str (lb_password \<lparr>lb_email = Some ''a@b.c'', lb_password = Some ''guess''\<rparr>)) \<and>
   login demo_config demo_lib 0 \<lparr>lb_email = Some ''a@b.c'', lb_password = Some ''guess''\<rparr> empty_db =
     login demo_config demo_lib 0 \<lparr>lb_email = Some ''a@b.c'', lb_password = Some ''guess''\<rparr> ann_db \<and>
   login demo_config demo_lib 0 \<lparr>lb_email = Some ''a@b.c'', lb_password = Some ''guess''\<rparr> empty_db =
     Err 401 ''invalid credentials''"
proof -
  let ?data = "\<lparr>lb_email = Some ''a@b.c'', lb_password = Some ''guess''\<rparr>"
  have mail: "lower (strip (get_str (lb_email ?data))) = ''a@b.c''"
    by (simp add: get_str_def strip_def lower_def is_space_def lower_char_def)
  have h1: "fetchone (filter (\<lambda>u. u_email u = lower (strip (get_str (lb_email ?data))))
              (users empty_db)) = None"
    by (simp add: fetchone_def empty_db_def)
  have h2: "fetchone (filter (\<lambda>u. u_email u = lower (strip (get_str (lb_email ?data))))
              (users ann_db)) = Some ann"
    unfolding mail by (simp add: fetchone_def empty_db_def ann_db_def ann_def)
  have h3: "\<not> check_password_hash demo_lib (u_password ann) (get_str (lb_password ?data))"
    by (simp add: demo_lib_def ann_def get_str_def)
  have ne: "lower (strip (get_str (lb_email ?data))) \<noteq> [] \<and> get_str (lb_password ?data) \<noteq> []"
    unfolding mail by (simp add: get_str_def)
  from login_same_failure [OF h1 h2 h3, of demo_config 0] ne
  have same: "login demo_config demo_lib 0 ?data empty_db = login demo_config demo_lib 0 ?data ann_db"
    and failure: "login demo_config demo_lib 0 ?data empty_db = Err 401 ''invalid credentials''"
    by blast+
  show ?thesis by (intro conjI h1 h2 h3 same failure)
qed

text \<open>
  The claim as stated fails on a request with an empty password: the email matches no user,
  and the response is 400, not 401.
\<close>

theorem login_empty_password_counterexample:
  "filter (\<lambda>u. u_email u = ''a@b.c'') (users empty_db) = [] \<and>
   login demo_config demo_lib 0 \<lparr>lb_email = Some ''a@b.c'', lb_password = Some ''''\<rparr> empty_db =
     Err 400 ''email and password required''"
  by (simp add: login_def get_str_def empty_db_def)

subsection \<open>Products\<close>


text \<open>
  Claim C4. An update or delete of a product id that no row carries fails with 404
  \<open>not found\<close>; when the first row with that id has another owner than the requester it
  fails with 403 \<open>forbidden\<close>; both leave the database as it was. When the requester is
  the owner, the delete answers \<open>deleted\<close> and leaves the database without any product
  row of that id, every other row and table as before; and the update, when the body yields
  a non-empty list of assignments (no field at all is refused, and a price that
  \<open>float()\<close> rejects raises), answers \<open>updated\<close> and leaves the database with those
  assignments applied to the rows of that id, every other row and table as before.
\<close>

theorem product_ownership:
  "(fetchone (map p_user_id (filter (\<lambda>p. p_id p = pid) (products d))) = None \<longrightarrow>
      update_product u pid data d = (d, Err 404 ''not found'') \<and>
      delete_product u pid d = (d, Err 404 ''not found'')) \<and>
   (fetchone (map p_user_id (filter (\<lambda>p. p_id p = pid) (products d))) = Some owner \<and> owner \<noteq> u \<longrightarrow>
      update_product u pid data d = (d, Err 403 ''forbidden'') \<and>
      delete_product u pid d = (d, Err 403 ''forbidden'')) \<and>
   (fetchone (map p_user_id (filter (\<lambda>p. p_id p = pid) (products d))) = Some u \<longrightarrow>
      delete_product u pid d =
        (d\<lparr>products := filter (\<lambda>p. p_id p \<noteq> pid) (products d)\<rparr>, Reply 200 ''deleted'') \<and>
      filter (\<lambda>p. p_id p = pid) (products (fst (delete_product u pid d))) = [] \<and>
      filter (\<lambda>p. p_id p \<noteq> pid) (products (fst (delete_product u pid d))) =
        filter (\<lambda>p. p_id p \<noteq> pid) (products d) \<and>
      (build_fields data = Some fl \<and> fl \<noteq> [] \<longrightarrow>
         update_product u pid data d =
           (d\<lparr>products := map (\<lambda>p. if p_id p = pid then foldl assign p fl else p) (products d)\<rparr>,
            Reply 200 ''updated'')))"
  by (simp add: update_product_def delete_product_def)

theorem product_ownership_witness:
  "fetchone (map p_user_id (filter (\<lambda>p. p_id p = 2) (products shop_db))) = None \<and>
   update_product 1 2 price_only shop_db = (shop_db, Err 404 ''not found'') \<and>
   delete_product 1 2 shop_db = (shop_db, Err 404 ''not found'') \<and>
   fetchone (map p_user_id (filter (\<lambda>p. p_id p = 1) (products shop_db))) = Some 1 \<and>
   (1::int) \<noteq> 2 \<and>
   update_product 2 1 price_only shop_db = (shop_db, Err 403 ''forbidden'') \<and>
   delete_product 2 1 shop_db = (shop_db, Err 403 ''forbidden'') \<and>
   build_fields price_only = Some [SetPrice 12] \<and> [SetPrice 12] \<noteq> [] \<and>
   delete_product 1 1 shop_db = (shop_db\<lparr>products := []\<rparr>, Reply 200 ''deleted'') \<and>
   filter (\<lambda>p. p_id p = 1) (products (fst (delete_product 1 1 shop_db))) = [] \<and>
   update_product 1 1 price_only shop_db =
     (shop_db\<lparr>products := [lamp\<lparr>p_price := 12\<rparr>]\<rparr>, Reply 200 ''updated'')"
proof -
  have missing: "fetchone (map p_user_id (filter (\<lambda>p. p_id p = 2) (products shop_db))) = None"
    by (simp add: fetchone_def sample_defs)
  have owner: "fetchone (map p_user_id (filter (\<lambda>p. p_id p = 1) (products shop_db))) = Some 1"
    by (simp add: fetchone_def sample_defs)
  have bf: "build_fields price_only = Some [SetPrice 12]"
    by (simp add: build_fields_def py_float_def sample_defs)
  from product_ownership [where pid = 2 and d = shop_db and u = 1 and data = price_only] missing
  have a: "update_product 1 2 price_only shop_db = (shop_db, Err 404 ''not found'')"
    "delete_product 1 2 shop_db = (shop_db, Err 404 ''not found'')"
    by blast+
  from product_ownership [where pid = 1 and d = shop_db and u = 2 and data = price_only
      and owner = 1] owner
  have b: "update_product 2 1 price_only shop_db = (shop_db, Err 403 ''forbidden'')"
    "delete_product 2 1 shop_db = (shop_db, Err 403 ''forbidden'')"
    by simp_all
  from product_ownership [where pid = 1 and d = shop_db and u = 1 and data = price_only
      and fl = "[SetPrice 12]"] owner bf
  have c: "delete_product 1 1 shop_db =
      (shop_db\<lparr>products := filter (\<lambda>p. p_id p \<noteq> 1) (products shop_db)\<rparr>, Reply 200 ''deleted'')"
    "filter (\<lambda>p. p_id p = 1) (products (fst (delete_product 1 1 shop_db))) = []"
    "update_product 1 1 price_only shop_db =
      (shop_db\<lparr>products := map (\<lambda>p. if p_id p = 1 then foldl assign p [SetPrice 12] else p)
         (products shop_db)\<rparr>, Reply 200 ''updated'')"
    by simp_all
  have rows: "filter (\<lambda>p. p_id p \<noteq> 1) (products shop_db) = []"
    "map (\<lambda>p. if p_id p = 1 then foldl assign p [SetPrice 12] else p) (products shop_db) =
       [lamp\<lparr>p_price := 12\<rparr>]"
    by (simp_all add: sample_defs)
  have del: "delete_product 1 1 shop_db = (shop_db\<lparr>products := []\<rparr>, Reply 200 ''deleted'')"
    using c(1) unfolding rows .
  have upd: "update_product 1 1 price_only shop_db =
      (shop_db\<lparr>products := [lamp\<lparr>p_price := 12\<rparr>]\<rparr>, Reply 200 ''updated'')"
    using c(3) unfolding rows .
  have ne: "(1::int) \<noteq> 2" "[SetPrice 12] \<noteq> []"
    by simp_all
  show ?thesis
    by (intro conjI missing a owner ne b bf del c(2) upd)
qed

text \<open>
  The claim as stated fails for the owner's update with no field: it is refused with 400.
\<close>

theorem update_empty_counterexample:
  "fetchone (map p_user_id (filter (\<lambda>p. p_id p = 1) (products shop_db))) = Some 1 \<and>
   update_product 1 1 no_fields shop_db = (shop_db, Err 400 ''nothing to update'')"
  by (simp add: update_product_def fetchone_def shop_db_def empty_db_def lamp_def
      build_fields_def no_fields_def)

text \<open>
  Claim C7. A create request with a non-empty title and a price that \<open>float()\<close> accepts
  stores one new row whose price is that float, of either sign, and whose owner is the
  authenticated user: the id the guard took from the token. The body has no say in the
  owner. A price that \<open>float()\<close> rejects
  gives 500 and stores nothing.
\<close>

theorem create_product_stores:
  assumes "strip (get_str (cb_title data)) \<noteq> []" and "cb_price data = Some pv"
  shows "(py_float pv = Some r \<longrightarrow>
           create_product u data d =
             (d\<lparr>products := products d @
                  [\<lparr>p_id = next_product_id d, p_user_id = u,
                    p_title = strip (get_str (cb_title data)),
                    p_description = strip (get_str (cb_description data)), p_price = r,
                    p_category = strip (get_str (cb_category data)),
                    p_image = strip (get_str (cb_image data))\<rparr>],
                 next_product_id := next_product_id d + 1\<rparr>,
              Reply 201 (''product created'', next_product_id d))) \<and>
         (py_float pv = None \<longrightarrow> create_product u data d = (d, Err 500 ''server error'')) \<and>
         (authenticate cfg L t auth = Inr u \<longrightarrow>
            jwt_required cfg L t auth (\<lambda>user_id. create_product user_id data) d =
              create_product u data d)"
  using assms by (simp add: create_product_def jwt_required_def Let_def)

theorem create_product_stores_witness:
  "strip (get_str (cb_title lamp_body)) \<noteq> [] \<and> cb_price lamp_body = Some (Numeric 10) \<and>
   py_float (Numeric 10) = Some 10 \<and>
   create_product 1 lamp_body empty_db = (shop_db, Reply 201 (''product created'', 1)) \<and>
   authenticate demo_config demo_lib 100 (Some ''Bearer token'') = Inr 1 \<and>
   jwt_required demo_config demo_lib 100 (Some ''Bearer token'')
     (\<lambda>user_id. create_product user_id lamp_body) empty_db =
     (shop_db, Reply 201 (''product created'', 1)) \<and>
   cb_price (lamp_body\<lparr>cb_price := Some NonNumeric\<rparr>) = Some NonNumeric \<and>
   py_float NonNumeric = None \<and>
   create_product 1 (lamp_body\<lparr>cb_price := Some NonNumeric\<rparr>) empty_db =
     (empty_db, Err 500 ''server error'')"
proof -
  have strips: "strip ''lamp'' = ''lamp''" "strip ''old'' = ''old''" "strip ''Home'' = ''Home''"
    "strip ''l.png'' = ''l.png''"
    by (simp_all add: strip_def is_space_def)
  have t: "strip (get_str (cb_title lamp_body)) \<noteq> []"
    by (simp add: lamp_body_def get_str_def strips)
  have t': "strip (get_str (cb_title (lamp_body\<lparr>cb_price := Some NonNumeric\<rparr>))) \<noteq> []"
    by (simp add: lamp_body_def get_str_def strips)
  have p: "cb_price lamp_body = Some (Numeric 10)"
    by (simp add: lamp_body_def)
  have p': "cb_price (lamp_body\<lparr>cb_price := Some NonNumeric\<rparr>) = Some NonNumeric"
    by simp
  have f: "py_float (Numeric 10) = Some 10" "py_float NonNumeric = None"
    by (simp_all add: py_float_def)
  have auth: "authenticate demo_config demo_lib 100 (Some ''Bearer token'') = Inr 1"
    by (simp add: authenticate_def startswith_def after_first_space_def demo_lib_def
        demo_config_def)
  note c = create_product_stores [OF t p, where r = 10 and u = 1 and d = empty_db
      and cfg = demo_config and L = demo_lib and t = 100 and auth = "Some ''Bearer token''"]
  from c f(1)
  have a: "create_product 1 lamp_body empty_db = (shop_db, Reply 201 (''product created'', 1))"
    by (simp add: sample_defs get_str_def strips)
  from c auth a
  have g: "jwt_required demo_config demo_lib 100 (Some ''Bearer token'')
      (\<lambda>user_id. create_product user_id lamp_body) empty_db =
      (shop_db, Reply 201 (''product created'', 1))"
    by simp
  from create_product_stores [OF t' p', of _ 1 empty_db] f(2)
  have b: "create_product 1 (lamp_body\<lparr>cb_price := Some NonNumeric\<rparr>) empty_db =
      (empty_db, Err 500 ''server error'')"
    by simp
  show ?thesis
    by (intro conjI t p f a auth g p' b)
qed

text \<open>
  The claim as stated fails on a negative price: it is stored as it is.
\<close>

theorem negative_price_counterexample:
  "create_product 1 \<lparr>cb_title = Some ''lamp'', cb_description = None, cb_price = Some (Numeric (- 5)),
                     cb_category = None, cb_image = None\<rparr> empty_db =
     (empty_db\<lparr>products := [\<lparr>p_id = 1, p_user_id = 1, p_title = ''lamp'', p_description = [],
                               p_price = - 5, p_category = [], p_image = []\<rparr>],
               next_product_id := 2\<rparr>,
      Reply 201 (''product created'', 1)) \<and> (- 5 :: real) < 0"
  by (simp add: create_product_def Let_def get_str_def strip_def is_space_def py_float_def empty_db_def)






subsection \<open>Cart\<close>

lemma entries_for_map:
  assumes "\<And>c. c_user_id (f c) = c_user_id c \<and> c_product_id (f c) = c_product_id c"
  shows "filter (\<lambda>c. c_user_id c = u \<and> c_product_id c = p) (map f xs) =
         map f (filter (\<lambda>c. c_user_id c = u \<and> c_product_id c = p) xs)"
  using assms by (induction xs) auto

lemma add_to_cart_existing:
  assumes "ab_product_id data = Some p" and "p \<noteq> 0" and "entries_for d u p = e # es"
  shows "add_to_cart u data d =
           (d\<lparr>cart := map (\<lambda>c. if c_id c = c_id e
                 then c\<lparr>c_quantity := c_quantity c + (case ab_quantity data of None \<Rightarrow> 1 | Some q \<Rightarrow> q)\<rparr>
                 else c) (cart d)\<rparr>, Reply 200 ''added to cart'')"
  using assms by (simp add: add_to_cart_def entries_for_def fetchone_def Let_def)

lemma add_to_cart_new:
  assumes "ab_product_id data = Some p" and "p \<noteq> 0" and "entries_for d u p = []"
  shows "add_to_cart u data d =
           (d\<lparr>cart := cart d @ [\<lparr>c_id = next_cart_id d, c_user_id = u, c_product_id = p,
                 c_quantity = (case ab_quantity data of None \<Rightarrow> 1 | Some q \<Rightarrow> q)\<rparr>],
               next_cart_id := next_cart_id d + 1\<rparr>, Reply 200 ''added to cart'')"
  using assms by (simp add: add_to_cart_def entries_for_def fetchone_def Let_def)

lemma entries_after_existing:
  assumes "ab_product_id data = Some p" and "p \<noteq> 0" and "entries_for d u p = e # es"
  shows "entries_for (fst (add_to_cart u data d)) u' p' =
           map (\<lambda>c. if c_id c = c_id e
                 then c\<lparr>c_quantity := c_quantity c + (case ab_quantity data of None \<Rightarrow> 1 | Some q \<Rightarrow> q)\<rparr>
                 else c) (entries_for d u' p')"
  unfolding add_to_cart_existing [OF assms] entries_for_def
  by (simp add: entries_for_map)

lemma entries_after_new:
  assumes "ab_product_id data = Some p" and "p \<noteq> 0" and "entries_for d u p = []"
  shows "entries_for (fst (add_to_cart u data d)) u' p' =
           entries_for d u' p' @
           (if u' = u \<and> p' = p
            then [\<lparr>c_id = next_cart_id d, c_user_id = u, c_product_id = p,
                   c_quantity = (case ab_quantity data of None \<Rightarrow> 1 | Some q \<Rightarrow> q)\<rparr>]
            else [])"
  unfolding add_to_cart_new [OF assms] entries_for_def
  by simp

lemma add_to_cart_one_entry:
  assumes pid: "ab_product_id data = Some p" "p \<noteq> 0"
    and inv: "\<And>u' p'. length (entries_for d u' p') \<le> 1"
  shows "length (entries_for (fst (add_to_cart u data d)) u' p') \<le> 1"
proof (cases "entries_for d u p")
  case Nil
  show ?thesis
    using inv [of u' p'] Nil by (auto simp: entries_after_new [OF pid Nil])
next
  case (Cons e es)
  show ?thesis
    using inv [of u' p'] by (simp add: entries_after_existing [OF pid Cons])
qed

text \<open>
  Claim C5. For a request with a non-zero product id, \<open>add_to_cart\<close> answers
  \<open>added to cart\<close>; when the user has exactly one row for the product, that row's
  quantity becomes its old quantity plus the amount (1 when the body has none), and it stays
  the user's only row for the product; when the user has no row, one row with the amount is
  inserted; if every (user, product) pair had at most one row before, so it has after; and
  from a cart without a row for (u, p), adding 2 and then 3 leaves exactly one row, of
  quantity 5. The amount is any integer: a negative amount lowers the quantity.
\<close>

theorem add_to_cart_accumulates:
  assumes pid: "ab_product_id data = Some p" "p \<noteq> 0"
  shows "snd (add_to_cart u data d) = Reply 200 ''added to cart'' \<and>
         (entries_for d u p = [e] \<longrightarrow>
            entries_for (fst (add_to_cart u data d)) u p =
              [e\<lparr>c_quantity := c_quantity e + (case ab_quantity data of None \<Rightarrow> 1 | Some q \<Rightarrow> q)\<rparr>]) \<and>
         (entries_for d u p = [] \<longrightarrow>
            entries_for (fst (add_to_cart u data d)) u p =
              [\<lparr>c_id = next_cart_id d, c_user_id = u, c_product_id = p,
                c_quantity = (case ab_quantity data of None \<Rightarrow> 1 | Some q \<Rightarrow> q)\<rparr>]) \<and>
         ((\<forall>u' p'. length (entries_for d u' p') \<le> 1) \<longrightarrow>
            (\<forall>u' p'. length (entries_for (fst (add_to_cart u data d)) u' p') \<le> 1)) \<and>
         (entries_for d u p = [] \<longrightarrow>
            entries_for (fst (add_to_cart u \<lparr>ab_product_id = Some p, ab_quantity = Some 3\<rparr>
               (fst (add_to_cart u \<lparr>ab_product_id = Some p, ab_quantity = Some 2\<rparr> d)))) u p =
              [\<lparr>c_id = next_cart_id d, c_user_id = u, c_product_id = p, c_quantity = 5\<rparr>])"
proof (intro conjI impI)
  show "snd (add_to_cart u data d) = Reply 200 ''added to cart''"
    using pid by (simp add: add_to_cart_def Let_def split: option.splits)
next
  assume "entries_for d u p = [e]"
  then show "entries_for (fst (add_to_cart u data d)) u p =
      [e\<lparr>c_quantity := c_quantity e + (case ab_quantity data of None \<Rightarrow> 1 | Some q \<Rightarrow> q)\<rparr>]"
    by (simp add: entries_after_existing [OF pid])
next
  assume "entries_for d u p = []"
  then show "entries_for (fst (add_to_cart u data d)) u p =
      [\<lparr>c_id = next_cart_id d, c_user_id = u, c_product_id = p,
        c_quantity = (case ab_quantity data of None \<Rightarrow> 1 | Some q \<Rightarrow> q)\<rparr>]"
    by (simp add: entries_after_new [OF pid])
next
  assume "\<forall>u' p'. length (entries_for d u' p') \<le> 1"
  then show "\<forall>u' p'. length (entries_for (fst (add_to_cart u data d)) u' p') \<le> 1"
    using add_to_cart_one_entry [OF pid] by blast
next
  assume e: "entries_for d u p = []"
  let ?two = "\<lparr>ab_product_id = Some p, ab_quantity = Some 2\<rparr>"
  let ?three = "\<lparr>ab_product_id = Some p, ab_quantity = Some 3\<rparr>"
  have first: "entries_for (fst (add_to_cart u ?two d)) u p =
      [\<lparr>c_id = next_cart_id d, c_user_id = u, c_product_id = p, c_quantity = 2\<rparr>]"
    using pid(2) e by (simp add: entries_after_new)
  show "entries_for (fst (add_to_cart u ?three (fst (add_to_cart u ?two d)))) u p =
      [\<lparr>c_id = next_cart_id d, c_user_id = u, c_product_id = p, c_quantity = 5\<rparr>]"
    using pid(2) first by (simp add: entries_after_existing [where es = "[]"])
qed

theorem add_to_cart_accumulates_witness:
  "ab_product_id \<lparr>ab_product_id = Some 1, ab_quantity = Some 3\<rparr> = Some 1 \<and> (1::int) \<noteq> 0 \<and>
   entries_for cart_db 2 1 = [lamp_entry] \<and>
   entries_for (fst (add_to_cart 2 \<lparr>ab_product_id = Some 1, ab_quantity = Some 3\<rparr> cart_db)) 2 1 =
     [lamp_entry\<lparr>c_quantity := 8\<rparr>] \<and>
   entries_for shop_db 2 1 = [] \<and>
   entries_for (fst (add_to_cart 2 \<lparr>ab_product_id = Some 1, ab_quantity = Some 3\<rparr> shop_db)) 2 1 =
     [\<lparr>c_id = 1, c_user_id = 2, c_product_id = 1, c_quantity = 3\<rparr>] \<and>
   length (entries_for (fst (add_to_cart 2 \<lparr>ab_product_id = Some 1, ab_quantity = Some 3\<rparr> shop_db)) 2 1) \<le> 1 \<and>
   entries_for (fst (add_to_cart 2 \<lparr>ab_product_id = Some 1, ab_quantity = Some 3\<rparr>
      (fst (add_to_cart 2 \<lparr>ab_product_id = Some 1, ab_quantity = Some 2\<rparr> shop_db)))) 2 1 =
     [\<lparr>c_id = 1, c_user_id = 2, c_product_id = 1, c_quantity = 5\<rparr>]"
proof -
  let ?data = "\<lparr>ab_product_id = Some 1, ab_quantity = Some 3\<rparr>"
  have pid: "ab_product_id ?data = Some 1" "(1::int) \<noteq> 0"
    by simp_all
  have one: "entries_for cart_db 2 1 = [lamp_entry]"
    by (simp add: entries_for_def sample_defs)
  have none: "entries_for shop_db 2 1 = []"
    by (simp add: entries_for_def sample_defs)
  have inv: "\<forall>u' p'. length (entries_for shop_db u' p') \<le> 1"
    by (simp add: entries_for_def sample_defs)
  from add_to_cart_accumulates [OF pid, of 2 cart_db lamp_entry] one
  have a: "entries_for (fst (add_to_cart 2 ?data cart_db)) 2 1 = [lamp_entry\<lparr>c_quantity := 8\<rparr>]"
    by (simp add: lamp_entry_def)
  from add_to_cart_accumulates [OF pid, of 2 shop_db] none inv
  have b: "entries_for (fst (add_to_cart 2 ?data shop_db)) 2 1 =
        [\<lparr>c_id = 1, c_user_id = 2, c_product_id = 1, c_quantity = 3\<rparr>]"
    and c: "length (entries_for (fst (add_to_cart 2 ?data shop_db)) 2 1) \<le> 1"
    and d: "entries_for (fst (add_to_cart 2 ?data
        (fst (add_to_cart 2 \<lparr>ab_product_id = Some 1, ab_quantity = Some 2\<rparr> shop_db)))) 2 1 =
        [\<lparr>c_id = 1, c_user_id = 2, c_product_id = 1, c_quantity = 5\<rparr>]"
    by (simp_all add: sample_defs)
  show ?thesis
    by (intro conjI pid one a none b c d)
qed

text \<open>
  The claim as stated fails on a negative amount: the quantity of the entry decreases.
\<close>

theorem negative_quantity_counterexample:
  "entries_for cart_db 2 1 = [lamp_entry] \<and> c_quantity lamp_entry = 5 \<and>
   add_to_cart 2 \<lparr>ab_product_id = Some 1, ab_quantity = Some (- 3)\<rparr> cart_db =
     (cart_db\<lparr>cart := [lamp_entry\<lparr>c_quantity := 2\<rparr>]\<rparr>, Reply 200 ''added to cart'') \<and>
   (2::int) < 5"
  by (simp add: add_to_cart_def entries_for_def fetchone_def sample_defs)

subsection \<open>Checkout\<close>

lemma tables_close: "tables (close c) = tables (stored c)"
  by (simp add: tables_def close_def)

lemma foldl_insert_items:
  "foldl (\<lambda>d it. insert_order_item oid it d) d items =
     d\<lparr>order_items := order_items d @ map (order_item_of oid) items\<rparr>"
  by (induction items arbitrary: d) (simp_all add: insert_order_item_def)

lemma insert_order_items_raises:
  assumes "fault = Some k" and "calls c \<le> k" and "k < calls c + length items"
  shows "\<exists>c'. insert_order_items fault oid items c = Inl c' \<and> stored c' = stored c"
  using assms
proof (induction items arbitrary: c)
  case Nil
  then show ?case by simp
next
  case (Cons it items)
  show ?case
  proof (cases "k = calls c")
    case True
    with Cons.prems show ?thesis by (simp add: execute_def)
  next
    case False
    let ?c = "c\<lparr>pending := insert_order_item oid it (pending c), calls := Suc (calls c)\<rparr>"
    from False Cons.prems have "calls ?c \<le> k" "k < calls ?c + length items" by simp_all
    from Cons.IH [OF Cons.prems(1) this] False Cons.prems(1)
    show ?thesis by (simp add: execute_def)
  qed
qed

lemma insert_order_items_returns:
  assumes "\<forall>k. fault = Some k \<longrightarrow> k < calls c \<or> calls c + length items \<le> k"
  shows "insert_order_items fault oid items c =
           Inr (c\<lparr>pending := foldl (\<lambda>d it. insert_order_item oid it d) (pending c) items,
                  calls := calls c + length items\<rparr>)"
  using assms
proof (induction items arbitrary: c)
  case Nil
  then show ?case by simp
next
  case (Cons it items)
  have ne: "fault \<noteq> Some (calls c)"
    using Cons.prems by auto
  let ?c = "c\<lparr>pending := insert_order_item oid it (pending c), calls := Suc (calls c)\<rparr>"
  have "\<forall>k. fault = Some k \<longrightarrow> k < calls ?c \<or> calls ?c + length items \<le> k"
    using Cons.prems ne by fastforce
  from Cons.IH [OF this] ne show ?case
    by (simp add: execute_def)
qed

lemma checkout_empty:
  assumes "fault \<noteq> Some 0" and "cart_items d u = []"
  shows "checkout fault now u d = (d, Err 400 ''cart empty'')"
  using assms by (simp add: checkout_def execute_def connect_def close_def)

lemma checkout_select_raises:
  "checkout (Some 0) now u d = (d, Err 500 ''server error'')"
  by (simp add: checkout_def execute_def connect_def close_def)

lemma checkout_raises:
  assumes items: "cart_items d u \<noteq> []" and k: "1 \<le> k" "k \<le> length (cart_items d u) + 3"
  shows "snd (checkout (Some k) now u d) = Err 500 ''server error'' \<and>
         tables (fst (checkout (Some k) now u d)) = tables d"
proof -
  let ?n = "length (cart_items d u)"
  let ?c2 = "\<lparr>stored = d, pending = insert_order u now d, calls = Suc (Suc 0)\<rparr>"
  consider "k = 1" | "2 \<le> k" "k < 2 + ?n" | "k = ?n + 2" | "k = ?n + 3"
    using k by linarith
  then show ?thesis
  proof cases
    case 1
    with items show ?thesis
      by (simp add: checkout_def Let_def execute_def connect_def tables_close)
  next
    case 2
    then have "calls ?c2 \<le> k" "k < calls ?c2 + ?n" by simp_all
    from insert_order_items_raises [OF refl this, where oid = "next_order_id d"]
    obtain c' where "insert_order_items (Some k) (next_order_id d) (cart_items d u) ?c2 = Inl c'"
      "stored c' = d" by auto
    with items 2 show ?thesis
      by (simp add: checkout_def Let_def execute_def connect_def tables_close)
  next
    case 3
    have "\<forall>j. Some k = Some j \<longrightarrow> j < calls ?c2 \<or> calls ?c2 + ?n \<le> j"
      using 3 by simp
    from insert_order_items_returns [where fault = "Some k", OF this, where oid = "next_order_id d"]
      items 3 show ?thesis
      by (simp add: checkout_def Let_def execute_def connect_def tables_close)
  next
    case 4
    have "\<forall>j. Some k = Some j \<longrightarrow> j < calls ?c2 \<or> calls ?c2 + ?n \<le> j"
      using 4 by simp
    from insert_order_items_returns [where fault = "Some k", OF this, where oid = "next_order_id d"]
      items 4 show ?thesis
      by (simp add: checkout_def Let_def execute_def commit_def connect_def tables_close)
  qed
qed

lemma checkout_completes:
  assumes items: "cart_items d u \<noteq> []"
    and fault: "\<And>k. fault = Some k \<Longrightarrow> length (cart_items d u) + 3 < k"
  shows "checkout fault now u d =
           (d\<lparr>cart := filter (\<lambda>c. c_user_id c \<noteq> u) (cart d),
              orders := orders d @
                [\<lparr>o_id = next_order_id d, o_user_id = u, o_created_at = now\<rparr>],
              order_items := order_items d @
                map (order_item_of (next_order_id d)) (cart_items d u),
              next_order_id := next_order_id d + 1\<rparr>,
            Reply 200 (''checkout complete'', next_order_id d))"
proof -
  let ?n = "length (cart_items d u)"
  let ?c2 = "\<lparr>stored = d, pending = insert_order u now d, calls = Suc (Suc 0)\<rparr>"
  have ne: "fault \<noteq> Some 0" "fault \<noteq> Some 1" "fault \<noteq> Some (Suc (Suc 0))" "fault \<noteq> Some (?n + 2)" "fault \<noteq> Some (Suc (?n + 2))"
    "fault \<noteq> Some (Suc (Suc ?n))" "fault \<noteq> Some (Suc (Suc (Suc ?n)))"
    using fault by fastforce+
  have "\<forall>j. fault = Some j \<longrightarrow> j < calls ?c2 \<or> calls ?c2 + ?n \<le> j"
    using fault by fastforce
  from insert_order_items_returns [OF this, where oid = "next_order_id d"] items ne show ?thesis
    by (simp add: checkout_def Let_def execute_def commit_def connect_def close_def foldl_insert_items
        insert_order_def clear_cart_def)
qed

lemma checkout_error_keeps_tables:
  assumes "is_error (snd (checkout fault now u d))"
  shows "tables (fst (checkout fault now u d)) = tables d"
proof (cases "cart_items d u = []")
  case True
  show ?thesis
  proof (cases "fault = Some 0")
    case True
    then show ?thesis by (simp add: checkout_select_raises)
  next
    case False
    with True show ?thesis by (simp add: checkout_empty)
  qed
next
  case items: False
  show ?thesis
  proof (cases fault)
    case None
    with checkout_completes [OF items, where fault = fault and now = now] assms show ?thesis by simp
  next
    case (Some k)
    consider "k = 0" | "1 \<le> k" "k \<le> length (cart_items d u) + 3" | "length (cart_items d u) + 3 < k"
      by linarith
    then show ?thesis
    proof cases
      case 1
      with Some show ?thesis by (simp add: checkout_select_raises)
    next
      case 2
      with Some checkout_raises [OF items 2] show ?thesis by simp
    next
      case 3
      with Some checkout_completes [OF items, where fault = fault and now = now] assms show ?thesis by simp
    qed
  qed
qed

lemma checkout_reply:
  assumes "checkout fault now u d = (d', Reply st body)"
  shows "cart_items d u \<noteq> [] \<and>
         d' = d\<lparr>cart := filter (\<lambda>c. c_user_id c \<noteq> u) (cart d),
                orders := orders d @
                  [\<lparr>o_id = next_order_id d, o_user_id = u, o_created_at = now\<rparr>],
                order_items := order_items d @
                  map (order_item_of (next_order_id d)) (cart_items d u),
                next_order_id := next_order_id d + 1\<rparr> \<and>
         st = 200 \<and> body = (''checkout complete'', next_order_id d)"
proof -
  have items: "cart_items d u \<noteq> []"
  proof
    assume e: "cart_items d u = []"
    show False
    proof (cases "fault = Some 0")
      case True
      with assms show False by (simp add: checkout_select_raises)
    next
      case False
      with assms e show False by (simp add: checkout_empty)
    qed
  qed
  have late: "\<And>k. fault = Some k \<Longrightarrow> length (cart_items d u) + 3 < k"
  proof (rule ccontr)
    fix k assume k: "fault = Some k" "\<not> length (cart_items d u) + 3 < k"
    show False
    proof (cases "k = 0")
      case True
      with k assms show False by (simp add: checkout_select_raises)
    next
      case False
      with k have "1 \<le> k" "k \<le> length (cart_items d u) + 3" by simp_all
      from checkout_raises [OF items this, where now = now] k assms show False by simp
    qed
  qed
  from checkout_completes [OF items late, where now = now] assms items show ?thesis by simp
qed

lemmas checkout_defs = checkout_def Let_def execute_def commit_def connect_def close_def
  cart_items_def cart_join_def insert_order_def insert_order_item_def order_item_of_def
  clear_cart_def

lemma checkout_cart_db:
  "checkout None 100 2 cart_db = (bought_db, Reply 200 (''checkout complete'', 1))"
  by (simp add: checkout_defs sample_defs)

text \<open>
  Claim C1. Whenever checkout answers with an error, the stored tables (users, products,
  cart, orders, order items) are what they were before the request: no order and no order
  item is persisted and the cart is as it was. And when the cart join is non-empty and the
  store raises at the \<open>k\<close>-th statement of the request, for any \<open>k\<close> from the insert of
  the order (1), through the inserts of the \<open>n\<close> order items and the delete of the cart
  rows (\<open>n + 2\<close>), to the commit (\<open>n + 3\<close>), the response is 500 \<open>server error\<close>.
\<close>

theorem checkout_atomic:
  "(is_error (snd (checkout fault now u d)) \<longrightarrow> tables (fst (checkout fault now u d)) = tables d) \<and>
   (cart_items d u \<noteq> [] \<and> 1 \<le> k \<and> k \<le> length (cart_items d u) + 3 \<longrightarrow>
      snd (checkout (Some k) now u d) = Err 500 ''server error'' \<and>
      tables (fst (checkout (Some k) now u d)) = tables d)"
  using checkout_error_keeps_tables checkout_raises by blast

theorem checkout_atomic_witness:
  "cart_items cart_db 2 \<noteq> [] \<and> (1::nat) \<le> 2 \<and> 2 \<le> length (cart_items cart_db 2) + 3 \<and>
   snd (checkout (Some 2) 100 2 cart_db) = Err 500 ''server error'' \<and>
   is_error (snd (checkout (Some 2) 100 2 cart_db)) \<and>
   tables (fst (checkout (Some 2) 100 2 cart_db)) = tables cart_db"
proof -
  have items: "cart_items cart_db 2 = [(1, 5, 10)]"
    by (simp add: cart_items_def cart_join_def sample_defs)
  from checkout_atomic [of "Some 2" 100 2 cart_db 2] items
  have a: "snd (checkout (Some 2) 100 2 cart_db) = Err 500 ''server error''"
    and b: "tables (fst (checkout (Some 2) 100 2 cart_db)) = tables cart_db"
    by simp_all
  show ?thesis
    using items a b by simp
qed

lemma set_cart_join:
  "(c, p) \<in> set (cart_join d u) \<longleftrightarrow>
     c \<in> set (cart d) \<and> c_user_id c = u \<and> p \<in> set (products d) \<and> c_product_id c = p_id p"
  by (auto simp: cart_join_def)

lemma cart_join_cleared:
  "cart_join (d\<lparr>cart := filter (\<lambda>c. c_user_id c \<noteq> u) (cart d), orders := os, order_items := is,
      next_order_id := n\<rparr>) u = []"
  by (simp add: cart_join_def)

lemma join_no_orphans:
  assumes "\<forall>c \<in> set cs. \<exists>p. filter (\<lambda>p. c_product_id c = p_id p) ps = [p]"
  shows "map fst (concat (map (\<lambda>c. map (\<lambda>p. (c, p)) (filter (\<lambda>p. c_product_id c = p_id p) ps)) cs)) = cs"
  using assms by (induction cs) auto

lemma update_keeps_order_items:
  "order_items (fst (update_product u pid data d)) = order_items d"
  by (simp add: update_product_def split: option.splits)

text \<open>
  Claim C2. A checkout that answers with a reply answers 200 with the id of the one order
  it appended; the order items it appended are, in order, the rows of the user's cart joined
  with the products, with the cart row's product id and quantity and the product's price at
  that moment, which are the product ids, quantities and prices \<open>view_cart\<close> reported
  before; when every cart row of the user matches exactly one product they are the user's
  cart rows one for one. All cart rows of the user are deleted, \<open>view_cart\<close> then returns
  no row, and no later \<open>update_product\<close> changes the order items.
\<close>

theorem checkout_snapshot:
  assumes "checkout fault now u d = (d', Reply st body)"
  shows "st = 200 \<and> body = (''checkout complete'', next_order_id d) \<and>
         orders d' = orders d @ [\<lparr>o_id = next_order_id d, o_user_id = u, o_created_at = now\<rparr>] \<and>
         order_items d' = order_items d @
           map (\<lambda>(c, p). \<lparr>oi_order_id = next_order_id d, oi_product_id = c_product_id c,
                          oi_quantity = c_quantity c, oi_price = p_price p\<rparr>) (cart_join d u) \<and>
         cart_join d u \<noteq> [] \<and>
         (\<forall>rows. view_cart u d = Reply 200 rows \<longrightarrow>
            map (\<lambda>oi. (oi_product_id oi, oi_quantity oi, oi_price oi))
                (drop (length (order_items d)) (order_items d')) =
            map (\<lambda>v. (cv_product_id v, cv_quantity v, cv_price v)) rows) \<and>
         ((\<forall>c \<in> set (cart d). c_user_id c = u \<longrightarrow>
             (\<exists>p. filter (\<lambda>p. c_product_id c = p_id p) (products d) = [p])) \<longrightarrow>
            map (\<lambda>oi. (oi_product_id oi, oi_quantity oi))
                (drop (length (order_items d)) (order_items d')) =
            map (\<lambda>c. (c_product_id c, c_quantity c)) (filter (\<lambda>c. c_user_id c = u) (cart d))) \<and>
         cart d' = filter (\<lambda>c. c_user_id c \<noteq> u) (cart d) \<and>
         users d' = users d \<and> products d' = products d \<and>
         view_cart u d' = Reply 200 [] \<and>
         order_items (fst (update_product u2 pid data d')) = order_items d'"
proof -
  note r = checkout_reply [OF assms]
  from r have d': "d' = d\<lparr>cart := filter (\<lambda>c. c_user_id c \<noteq> u) (cart d),
                orders := orders d @
                  [\<lparr>o_id = next_order_id d, o_user_id = u, o_created_at = now\<rparr>],
                order_items := order_items d @
                  map (order_item_of (next_order_id d)) (cart_items d u),
                next_order_id := next_order_id d + 1\<rparr>" by blast
  have items: "map (order_item_of (next_order_id d)) (cart_items d u) =
      map (\<lambda>(c, p). \<lparr>oi_order_id = next_order_id d, oi_product_id = c_product_id c,
                     oi_quantity = c_quantity c, oi_price = p_price p\<rparr>) (cart_join d u)"
    by (simp add: cart_items_def order_item_of_def split_def)
  have new: "drop (length (order_items d)) (order_items d') =
      map (\<lambda>(c, p). \<lparr>oi_order_id = next_order_id d, oi_product_id = c_product_id c,
                     oi_quantity = c_quantity c, oi_price = p_price p\<rparr>) (cart_join d u)"
    by (simp add: d' items)
  have ne: "cart_join d u \<noteq> []"
    using r by (auto simp: cart_items_def)
  have view: "\<forall>rows. view_cart u d = Reply 200 rows \<longrightarrow>
            map (\<lambda>oi. (oi_product_id oi, oi_quantity oi, oi_price oi))
                (drop (length (order_items d)) (order_items d')) =
            map (\<lambda>v. (cv_product_id v, cv_quantity v, cv_price v)) rows"
    unfolding new by (auto simp: view_cart_def cart_join_def split_def)
  have full: "(\<forall>c \<in> set (cart d). c_user_id c = u \<longrightarrow>
             (\<exists>p. filter (\<lambda>p. c_product_id c = p_id p) (products d) = [p])) \<longrightarrow>
            map (\<lambda>oi. (oi_product_id oi, oi_quantity oi))
                (drop (length (order_items d)) (order_items d')) =
            map (\<lambda>c. (c_product_id c, c_quantity c)) (filter (\<lambda>c. c_user_id c = u) (cart d))"
  proof
    assume a: "\<forall>c \<in> set (cart d). c_user_id c = u \<longrightarrow>
             (\<exists>p. filter (\<lambda>p. c_product_id c = p_id p) (products d) = [p])"
    then have "map fst (cart_join d u) = filter (\<lambda>c. c_user_id c = u) (cart d)"
      unfolding cart_join_def by (intro join_no_orphans) simp
    then have "map (\<lambda>c. (c_product_id c, c_quantity c)) (map fst (cart_join d u)) =
        map (\<lambda>c. (c_product_id c, c_quantity c)) (filter (\<lambda>c. c_user_id c = u) (cart d))"
      by simp
    then show "map (\<lambda>oi. (oi_product_id oi, oi_quantity oi))
                (drop (length (order_items d)) (order_items d')) =
            map (\<lambda>c. (c_product_id c, c_quantity c)) (filter (\<lambda>c. c_user_id c = u) (cart d))"
      unfolding new by (simp add: split_def comp_def)
  qed
  have cleared: "view_cart u d' = Reply 200 []"
    unfolding d' view_cart_def by (simp add: cart_join_cleared)
  show ?thesis
    using r ne view full cleared update_keeps_order_items [of u2 pid data d']
    by (simp add: d' items)
qed

theorem checkout_snapshot_witness:
  "checkout None 100 2 cart_db = (bought_db, Reply 200 (''checkout complete'', 1)) \<and>
   orders bought_db = orders cart_db @ [\<lparr>o_id = 1, o_user_id = 2, o_created_at = 100\<rparr>] \<and>
   order_items bought_db =
     [\<lparr>oi_order_id = 1, oi_product_id = 1, oi_quantity = 5, oi_price = 10\<rparr>] \<and>
   view_cart 2 cart_db =
     Reply 200 [\<lparr>cv_cart_id = 1, cv_product_id = 1, cv_title = ''lamp'', cv_price = 10,
                  cv_image = ''l.png'', cv_quantity = 5\<rparr>] \<and>
   map (\<lambda>oi. (oi_product_id oi, oi_quantity oi, oi_price oi))
       (drop (length (order_items cart_db)) (order_items bought_db)) = [(1, 5, 10)] \<and>
   filter (\<lambda>p. c_product_id lamp_entry = p_id p) (products cart_db) = [lamp] \<and>
   map (\<lambda>oi. (oi_product_id oi, oi_quantity oi))
       (drop (length (order_items cart_db)) (order_items bought_db)) =
     map (\<lambda>c. (c_product_id c, c_quantity c)) (filter (\<lambda>c. c_user_id c = 2) (cart cart_db)) \<and>
   cart bought_db = [] \<and>
   view_cart 2 bought_db = Reply 200 [] \<and>
   order_items (fst (update_product 1 1 price_only bought_db)) = order_items bought_db"
proof -
  note run = checkout_cart_db
  have view: "view_cart 2 cart_db =
     Reply 200 [\<lparr>cv_cart_id = 1, cv_product_id = 1, cv_title = ''lamp'', cv_price = 10,
                  cv_image = ''l.png'', cv_quantity = 5\<rparr>]"
    by (simp add: view_cart_def cart_join_def sample_defs)
  have one: "filter (\<lambda>p. c_product_id lamp_entry = p_id p) (products cart_db) = [lamp]"
    by (simp add: sample_defs)
  have all: "\<forall>c \<in> set (cart cart_db). c_user_id c = 2 \<longrightarrow>
      (\<exists>p. filter (\<lambda>p. c_product_id c = p_id p) (products cart_db) = [p])"
    by (simp add: sample_defs)
  note t = checkout_snapshot [OF run, of 1 1 price_only]
  from t have o: "orders bought_db = orders cart_db @ [\<lparr>o_id = 1, o_user_id = 2, o_created_at = 100\<rparr>]"
    by (simp add: sample_defs)
  from t have i: "order_items bought_db =
     [\<lparr>oi_order_id = 1, oi_product_id = 1, oi_quantity = 5, oi_price = 10\<rparr>]"
    by (simp add: sample_defs)
  from t have "\<forall>rows. view_cart 2 cart_db = Reply 200 rows \<longrightarrow>
      map (\<lambda>oi. (oi_product_id oi, oi_quantity oi, oi_price oi))
          (drop (length (order_items cart_db)) (order_items bought_db)) =
      map (\<lambda>v. (cv_product_id v, cv_quantity v, cv_price v)) rows"
    by blast
  with view have m: "map (\<lambda>oi. (oi_product_id oi, oi_quantity oi, oi_price oi))
       (drop (length (order_items cart_db)) (order_items bought_db)) = [(1, 5, 10)]"
    by simp
  from t all have f: "map (\<lambda>oi. (oi_product_id oi, oi_quantity oi))
       (drop (length (order_items cart_db)) (order_items bought_db)) =
     map (\<lambda>c. (c_product_id c, c_quantity c)) (filter (\<lambda>c. c_user_id c = 2) (cart cart_db))"
    by blast
  from t have c: "cart bought_db = []"
    by (simp add: sample_defs)
  from t have v: "view_cart 2 bought_db = Reply 200 []"
    by blast
  from t have u: "order_items (fst (update_product 1 1 price_only bought_db)) = order_items bought_db"
    by blast
  show ?thesis
    by (intro conjI run o i view m one f c v u)
qed

text \<open>
  The claim as stated fails on a cart that holds an orphaned row: the checkout succeeds and
  the order has an item for product 1 only, while the cart entries were for products 1 and 7.
\<close>

theorem checkout_orphan_counterexample:
  "map c_product_id (filter (\<lambda>c. c_user_id c = 2) (cart orphan_db)) = [1, 7] \<and>
   snd (checkout None 100 2 orphan_db) = Reply 200 (''checkout complete'', 1) \<and>
   map oi_product_id (order_items (fst (checkout None 100 2 orphan_db))) = [1]"
  by (simp add: checkout_defs sample_defs)

text \<open>
  Claim C10. A checkout that answers with a reply leaves no cart row of the user, so an
  orphaned row of the user is gone too, and no order item it appended carries the product
  id of an orphaned row. An orphaned row of the user is in no row of the cart join, and no
  row of \<open>view_cart\<close> carries its product id. When every cart row of the user is orphaned
  (and the select itself does not raise), checkout answers 400 \<open>cart empty\<close> and changes
  nothing.
\<close>

theorem checkout_orphans:
  "(checkout fault now u d = (d', Reply st body) \<longrightarrow>
      filter (\<lambda>c. c_user_id c = u) (cart d') = [] \<and>
      (\<forall>c \<in> set (cart d). c_user_id c = u \<and> orphaned d c \<longrightarrow>
         c \<notin> set (cart d') \<and>
         (\<forall>oi \<in> set (drop (length (order_items d)) (order_items d')).
            oi_product_id oi \<noteq> c_product_id c))) \<and>
   (\<forall>c \<in> set (cart d). c_user_id c = u \<and> orphaned d c \<longrightarrow>
      (\<forall>p. (c, p) \<notin> set (cart_join d u)) \<and>
      (\<forall>rows. view_cart u d = Reply 200 rows \<longrightarrow>
         (\<forall>v \<in> set rows. cv_product_id v \<noteq> c_product_id c))) \<and>
   ((\<forall>c \<in> set (cart d). c_user_id c = u \<longrightarrow> orphaned d c) \<and> fault \<noteq> Some 0 \<longrightarrow>
      checkout fault now u d = (d, Err 400 ''cart empty''))"
proof (intro conjI impI ballI allI)
  assume run: "checkout fault now u d = (d', Reply st body)"
  note r = checkout_reply [OF run]
  from r show "filter (\<lambda>c. c_user_id c = u) (cart d') = []"
    by simp
  fix c assume c: "c \<in> set (cart d)" "c_user_id c = u \<and> orphaned d c"
  from r c show "c \<notin> set (cart d')"
    by simp
  fix oi assume "oi \<in> set (drop (length (order_items d)) (order_items d'))"
  with r have "oi \<in> set (map (order_item_of (next_order_id d)) (cart_items d u))"
    by simp
  then obtain c' p where "(c', p) \<in> set (cart_join d u)" "oi_product_id oi = c_product_id c'"
    by (auto simp: cart_items_def order_item_of_def)
  then have "\<exists>p \<in> set (products d). oi_product_id oi = p_id p"
    by (auto simp: set_cart_join)
  with c show "oi_product_id oi \<noteq> c_product_id c"
    by (auto simp: orphaned_def filter_empty_conv)
next
  fix c p assume c: "c \<in> set (cart d)" "c_user_id c = u \<and> orphaned d c"
  then show "(c, p) \<notin> set (cart_join d u)"
    by (auto simp: set_cart_join orphaned_def filter_empty_conv)
next
  fix c rows v
  assume c: "c \<in> set (cart d)" "c_user_id c = u \<and> orphaned d c"
    and "view_cart u d = Reply 200 rows" "v \<in> set rows"
  then obtain c' p where "(c', p) \<in> set (cart_join d u)" "cv_product_id v = p_id p"
    by (auto simp: view_cart_def)
  then have "\<exists>p \<in> set (products d). cv_product_id v = p_id p"
    by (auto simp: set_cart_join)
  with c show "cv_product_id v \<noteq> c_product_id c"
    by (auto simp: orphaned_def filter_empty_conv)
next
  assume a: "(\<forall>c \<in> set (cart d). c_user_id c = u \<longrightarrow> orphaned d c) \<and> fault \<noteq> Some 0"
  have "cart_join d u = []"
  proof (rule ccontr)
    assume "cart_join d u \<noteq> []"
    then obtain c p where "(c, p) \<in> set (cart_join d u)"
      by (cases "cart_join d u") auto
    with a show False
      by (auto simp: set_cart_join orphaned_def filter_empty_conv)
  qed
  then have "cart_items d u = []"
    by (simp add: cart_items_def)
  with a show "checkout fault now u d = (d, Err 400 ''cart empty'')"
    by (simp add: checkout_empty)
qed

theorem checkout_orphans_witness:
  "checkout None 100 2 orphan_db = (orphan_bought_db, Reply 200 (''checkout complete'', 1)) \<and>
   ghost_entry \<in> set (cart orphan_db) \<and> c_user_id ghost_entry = 2 \<and>
   orphaned orphan_db ghost_entry \<and>
   filter (\<lambda>c. c_user_id c = 2) (cart orphan_bought_db) = [] \<and>
   ghost_entry \<notin> set (cart orphan_bought_db) \<and>
   (ghost_entry, lamp) \<notin> set (cart_join orphan_db 2) \<and>
   cart ghost_only_db = [ghost_entry] \<and> orphaned ghost_only_db ghost_entry \<and>
   checkout None 100 2 ghost_only_db = (ghost_only_db, Err 400 ''cart empty'')"
proof -
  have run: "checkout None 100 2 orphan_db = (orphan_bought_db, Reply 200 (''checkout complete'', 1))"
    by (simp add: checkout_defs sample_defs orphan_bought_db_def)
  have g: "ghost_entry \<in> set (cart orphan_db)" "c_user_id ghost_entry = 2"
    "orphaned orphan_db ghost_entry"
    by (simp_all add: orphaned_def sample_defs)
  have only: "cart ghost_only_db = [ghost_entry]" "orphaned ghost_only_db ghost_entry"
    by (simp_all add: orphaned_def sample_defs)
  then have all: "\<forall>c \<in> set (cart ghost_only_db). c_user_id c = 2 \<longrightarrow> orphaned ghost_only_db c"
    by simp
  note t = checkout_orphans [where fault = None and now = 100 and u = 2 and d = orphan_db
      and d' = orphan_bought_db and st = 200 and body = "(''checkout complete'', 1)"]
  from t run have a: "filter (\<lambda>c. c_user_id c = 2) (cart orphan_bought_db) = []"
    by blast
  from t run g have b: "ghost_entry \<notin> set (cart orphan_bought_db)"
    by blast
  from t g have c: "(ghost_entry, lamp) \<notin> set (cart_join orphan_db 2)"
    by blast
  from checkout_orphans [where fault = None and now = 100 and u = 2 and d = ghost_only_db] all
  have e: "checkout None 100 2 ghost_only_db = (ghost_only_db, Err 400 ''cart empty'')"
    by blast
  show ?thesis
    by (intro conjI run g a b c only e)
qed

subsection \<open>Purchases\<close>

lemma set_purchases_join:
  "(ord, oi, p) \<in> set (purchases_join d u) \<longleftrightarrow>
     ord \<in> set (orders d) \<and> o_user_id ord = u \<and> oi \<in> set (order_items d) \<and>
     oi_order_id oi = o_id ord \<and> p \<in> set (products d) \<and> p_id p = oi_product_id oi"
  by (auto simp: purchases_join_def)

lemma delete_keeps_orders:
  "orders (fst (delete_product u pid d)) = orders d \<and>
   order_items (fst (delete_product u pid d)) = order_items d"
  by (simp add: delete_product_def split: option.splits)

text \<open>
  Claim C9. \<open>purchases\<close> answers 200 with exactly the rows of the join of the user's
  orders, their order items and the products (each once), newest order first, each with
  the price and quantity stored in the order item. A row is returned for an order item
  exactly when a product with its product id exists. Deleting a product changes neither
  the orders nor the order items.
\<close>

theorem purchases_history:
  "\<exists>rows. purchases u d = Reply 200 rows \<and>
     mset rows = mset (map purchase_of (purchases_join d u)) \<and>
     sorted_wrt (\<lambda>a b. pr_created_at a \<ge> pr_created_at b) rows \<and>
     (\<forall>r. r \<in> set rows \<longleftrightarrow>
        (\<exists>ord oi p. ord \<in> set (orders d) \<and> o_user_id ord = u \<and>
           oi \<in> set (order_items d) \<and> oi_order_id oi = o_id ord \<and>
           p \<in> set (products d) \<and> p_id p = oi_product_id oi \<and>
           r = \<lparr>pr_order_id = o_id ord, pr_created_at = o_created_at ord,
                pr_product_id = oi_product_id oi, pr_title = p_title p, pr_image = p_image p,
                pr_quantity = oi_quantity oi, pr_price = oi_price oi\<rparr>)) \<and>
     orders (fst (delete_product u2 pid d)) = orders d \<and>
     order_items (fst (delete_product u2 pid d)) = order_items d"
proof -
  let ?rows = "sort_key (\<lambda>r. - pr_created_at r) (map purchase_of (purchases_join d u))"
  have 1: "purchases u d = Reply 200 ?rows"
    by (simp add: purchases_def)
  have 2: "mset ?rows = mset (map purchase_of (purchases_join d u))"
    by simp
  have "sorted (map (\<lambda>r. - pr_created_at r) ?rows)"
    by (rule sorted_sort_key)
  then have 3: "sorted_wrt (\<lambda>a b. pr_created_at a \<ge> pr_created_at b) ?rows"
    by (simp add: sorted_map)
  have 4: "\<forall>r. r \<in> set ?rows \<longleftrightarrow>
        (\<exists>ord oi p. ord \<in> set (orders d) \<and> o_user_id ord = u \<and>
           oi \<in> set (order_items d) \<and> oi_order_id oi = o_id ord \<and>
           p \<in> set (products d) \<and> p_id p = oi_product_id oi \<and>
           r = \<lparr>pr_order_id = o_id ord, pr_created_at = o_created_at ord,
                pr_product_id = oi_product_id oi, pr_title = p_title p, pr_image = p_image p,
                pr_quantity = oi_quantity oi, pr_price = oi_price oi\<rparr>)"
  proof
    fix r
    have "r \<in> set ?rows \<longleftrightarrow> (\<exists>ord oi p. (ord, oi, p) \<in> set (purchases_join d u) \<and>
        r = purchase_of (ord, oi, p))"
      by (auto simp: image_iff)
    then show "r \<in> set ?rows \<longleftrightarrow>
        (\<exists>ord oi p. ord \<in> set (orders d) \<and> o_user_id ord = u \<and>
           oi \<in> set (order_items d) \<and> oi_order_id oi = o_id ord \<and>
           p \<in> set (products d) \<and> p_id p = oi_product_id oi \<and>
           r = \<lparr>pr_order_id = o_id ord, pr_created_at = o_created_at ord,
                pr_product_id = oi_product_id oi, pr_title = p_title p, pr_image = p_image p,
                pr_quantity = oi_quantity oi, pr_price = oi_price oi\<rparr>)"
      by (simp add: set_purchases_join purchase_of_def)
  qed
  from 1 2 3 4 delete_keeps_orders [of u2 pid d] show ?thesis
    by blast
qed

text \<open>
  The claim as stated fails once the product is deleted: the order item is still stored,
  and \<open>purchases\<close> no longer returns it.
\<close>

theorem purchases_deleted_product_counterexample:
  "purchases 2 bought_db =
     Reply 200 [\<lparr>pr_order_id = 1, pr_created_at = 100, pr_product_id = 1, pr_title = ''lamp'',
                  pr_image = ''l.png'', pr_quantity = 5, pr_price = 10\<rparr>] \<and>
   snd (delete_product 1 1 bought_db) = Reply 200 ''deleted'' \<and>
   orders (fst (delete_product 1 1 bought_db)) = [\<lparr>o_id = 1, o_user_id = 2, o_created_at = 100\<rparr>] \<and>
   order_items (fst (delete_product 1 1 bought_db)) =
     [\<lparr>oi_order_id = 1, oi_product_id = 1, oi_quantity = 5, oi_price = 10\<rparr>] \<and>
   purchases 2 (fst (delete_product 1 1 bought_db)) = Reply 200 []"
  by (simp add: purchases_def purchases_join_def purchase_of_def delete_product_def fetchone_def
      sample_defs)

end
